theory Spec2Isabelle
  imports Complex_Main "HOL-Library.Multiset"
begin

section \<open>JavaScript numbers\<close>

text \<open>
  Every \<^verbatim>\<open>number\<close> of the TypeScript source is a \<open>jsnum\<close>: a finite value, one of
  the two infinities, or NaN. A finite value carries its exact real value: rounding,
  overflow to an infinity and the sign of zero are not modelled (a division by zero
  takes the zero as \<open>+0\<close>). The special values follow IEEE 754 as JavaScript has
  them: NaN is absorbing, \<open>Infinity - Infinity\<close> and \<open>0 * Infinity\<close> are NaN,
  every comparison with NaN is false, \<open>Math.max\<close> and \<open>Math.min\<close> return NaN as soon
  as one argument is NaN.
\<close>

datatype jsnum = Fin real | PInf | NInf | NaN

fun isFinite :: "jsnum \<Rightarrow> bool" where
  "isFinite (Fin _) = True"
| "isFinite _ = False"

fun jneg :: "jsnum \<Rightarrow> jsnum" where
  "jneg (Fin a) = Fin (- a)"
| "jneg PInf = NInf"
| "jneg NInf = PInf"
| "jneg NaN = NaN"

fun jadd :: "jsnum \<Rightarrow> jsnum \<Rightarrow> jsnum" where
  "jadd (Fin a) (Fin b) = Fin (a + b)"
| "jadd NaN _ = NaN"
| "jadd _ NaN = NaN"
| "jadd PInf NInf = NaN"
| "jadd NInf PInf = NaN"
| "jadd PInf _ = PInf"
| "jadd _ PInf = PInf"
| "jadd NInf _ = NInf"
| "jadd _ NInf = NInf"

definition jsub :: "jsnum \<Rightarrow> jsnum \<Rightarrow> jsnum" where
  "jsub a b = jadd a (jneg b)"

fun jmul :: "jsnum \<Rightarrow> jsnum \<Rightarrow> jsnum" where
  "jmul (Fin a) (Fin b) = Fin (a * b)"
| "jmul NaN _ = NaN"
| "jmul _ NaN = NaN"
| "jmul PInf (Fin b) = (if b = 0 then NaN else if 0 < b then PInf else NInf)"
| "jmul NInf (Fin b) = (if b = 0 then NaN else if 0 < b then NInf else PInf)"
| "jmul (Fin a) PInf = (if a = 0 then NaN else if 0 < a then PInf else NInf)"
| "jmul (Fin a) NInf = (if a = 0 then NaN else if 0 < a then NInf else PInf)"
| "jmul PInf PInf = PInf"
| "jmul PInf NInf = NInf"
| "jmul NInf PInf = NInf"
| "jmul NInf NInf = PInf"

fun jdiv :: "jsnum \<Rightarrow> jsnum \<Rightarrow> jsnum" where
  "jdiv (Fin a) (Fin b) =
     (if b \<noteq> 0 then Fin (a / b)
      else if a = 0 then NaN else if 0 < a then PInf else NInf)"
| "jdiv NaN _ = NaN"
| "jdiv _ NaN = NaN"
| "jdiv (Fin a) PInf = Fin 0"
| "jdiv (Fin a) NInf = Fin 0"
| "jdiv PInf (Fin b) = (if 0 \<le> b then PInf else NInf)"
| "jdiv NInf (Fin b) = (if 0 \<le> b then NInf else PInf)"
| "jdiv PInf PInf = NaN"
| "jdiv PInf NInf = NaN"
| "jdiv NInf PInf = NaN"
| "jdiv NInf NInf = NaN"

text \<open>The comparisons \<^verbatim>\<open><\<close> and \<^verbatim>\<open><=\<close>; \<^verbatim>\<open>a > b\<close> is \<open>jlt b a\<close>.\<close>

fun jlt :: "jsnum \<Rightarrow> jsnum \<Rightarrow> bool" where
  "jlt (Fin a) (Fin b) = (a < b)"
| "jlt NaN _ = False"
| "jlt _ NaN = False"
| "jlt _ NInf = False"
| "jlt PInf _ = False"
| "jlt NInf _ = True"
| "jlt _ PInf = True"

fun jle :: "jsnum \<Rightarrow> jsnum \<Rightarrow> bool" where
  "jle (Fin a) (Fin b) = (a \<le> b)"
| "jle NaN _ = False"
| "jle _ NaN = False"
| "jle NInf _ = True"
| "jle _ PInf = True"
| "jle PInf _ = False"
| "jle _ NInf = False"

definition Math_max :: "jsnum \<Rightarrow> jsnum \<Rightarrow> jsnum" where
  "Math_max a b = (if a = NaN \<or> b = NaN then NaN else if jlt a b then b else a)"

definition Math_min :: "jsnum \<Rightarrow> jsnum \<Rightarrow> jsnum" where
  "Math_min a b = (if a = NaN \<or> b = NaN then NaN else if jlt b a then b else a)"

fun Math_abs :: "jsnum \<Rightarrow> jsnum" where
  "Math_abs (Fin a) = Fin \<bar>a\<bar>"
| "Math_abs PInf = PInf"
| "Math_abs NInf = PInf"
| "Math_abs NaN = NaN"

fun Math_floor :: "jsnum \<Rightarrow> jsnum" where
  "Math_floor (Fin a) = Fin (of_int \<lfloor>a\<rfloor>)"
| "Math_floor x = x"

text \<open>\<^verbatim>\<open>a || b\<close> on numbers: \<open>0\<close> and NaN are the falsy ones.\<close>

definition jor :: "jsnum \<Rightarrow> jsnum \<Rightarrow> jsnum" where
  "jor a b = (if a = Fin 0 \<or> a = NaN then b else a)"

section \<open>Viewport\<close>

record Viewport =
  offsetIndex :: jsnum
  barWidth :: jsnum
  spacing :: jsnum
  maxBarWidth :: jsnum
  visibleCount :: jsnum

text \<open>The field initialisers and the constructor of the class.\<close>

definition Viewport_new :: "jsnum \<Rightarrow> Viewport" where
  "Viewport_new vc =
     \<lparr>offsetIndex = Fin 0, barWidth = Fin 6, spacing = Fin 1, maxBarWidth = Fin 20,
      visibleCount = vc\<rparr>"

text \<open>The three local constants of \<^verbatim>\<open>zoomAt\<close>, in the order the source computes them.\<close>

definition centerIndexFloat :: "Viewport \<Rightarrow> jsnum \<Rightarrow> jsnum" where
  "centerIndexFloat vp mouseX =
     jadd (offsetIndex vp) (jdiv mouseX (jadd (barWidth vp) (spacing vp)))"

definition newBarWidth :: "Viewport \<Rightarrow> jsnum \<Rightarrow> jsnum" where
  "newBarWidth vp zoomFactor =
     Math_max (Fin 1) (Math_min (maxBarWidth vp) (jmul (barWidth vp) zoomFactor))"

definition newOffset :: "Viewport \<Rightarrow> jsnum \<Rightarrow> jsnum \<Rightarrow> jsnum" where
  "newOffset vp mouseX zoomFactor =
     jsub (centerIndexFloat vp mouseX)
       (jdiv mouseX (jadd (newBarWidth vp zoomFactor) (spacing vp)))"

definition zoomAt :: "Viewport \<Rightarrow> jsnum \<Rightarrow> jsnum \<Rightarrow> Viewport" where
  "zoomAt vp mouseX zoomFactor =
     (if jlt (Math_abs (jsub (newBarWidth vp zoomFactor) (barWidth vp))) (Fin 0.01) then vp
      else vp\<lparr>barWidth := newBarWidth vp zoomFactor,
              offsetIndex := Math_max (Fin 0) (newOffset vp mouseX zoomFactor)\<rparr>)"


text \<open>
  The unclamped target of \<^verbatim>\<open>panBy\<close> is \<open>offsetIndex - deltaIndex\<close>; the clamp
  at 0 engages when it is below 0.
\<close>

definition deltaIndex :: "Viewport \<Rightarrow> jsnum \<Rightarrow> jsnum" where
  "deltaIndex vp deltaPx =
     (let panSensitivity = Fin 1
      in jdiv (jmul deltaPx panSensitivity) (jadd (barWidth vp) (spacing vp)))"

definition panBy :: "Viewport \<Rightarrow> jsnum \<Rightarrow> Viewport" where
  "panBy vp deltaPx =
     vp\<lparr>offsetIndex := Math_max (Fin 0) (jsub (offsetIndex vp) (deltaIndex vp deltaPx))\<rparr>"

text \<open>
  The invariant of the viewport's data model: a finite non-negative offset, a finite
  bar width between 1 and \<open>maxBarWidth\<close>, a finite non-negative spacing, a finite
  visible count.
\<close>

definition viewport_ok :: "Viewport \<Rightarrow> bool" where
  "viewport_ok vp \<longleftrightarrow>
     isFinite (offsetIndex vp) \<and> jle (Fin 0) (offsetIndex vp) \<and>
     jle (Fin 1) (barWidth vp) \<and> jle (barWidth vp) (maxBarWidth vp) \<and>
     isFinite (maxBarWidth vp) \<and>
     isFinite (spacing vp) \<and> jle (Fin 0) (spacing vp) \<and>
     isFinite (visibleCount vp)"

section \<open>Bars and the data loader\<close>

record Bar =
  Time :: int
  Open :: real
  High :: real
  Low :: real
  Close :: real
  TickVolume :: real

text \<open>
  An entry of a chunk as the loader reads it: the time is relative to the chunk's start,
  and each of the four prices may be absent (\<^verbatim>\<open>Open ?? 0\<close>).
\<close>

record ChunkEntry =
  eTime :: int
  eOpen :: "real option"
  eHigh :: "real option"
  eLow :: "real option"
  eClose :: "real option"
  eTickVolume :: real

record BarChunk =
  ChunkStart :: int
  Bars :: "ChunkEntry list"

text \<open>
  The decoded body of the response, as far as the loader tells shapes apart: an array
  whose elements are bar objects (they have a \<^verbatim>\<open>Time\<close> key), an array of chunk
  objects, or a value that is not an array. Arrays that mix the two are not modelled.
\<close>

datatype payload = FlatBars "Bar list" | Chunks "BarChunk list" | NotArray

text \<open>
  What \<^verbatim>\<open>fetch\<close> gives: a rejected promise, or a response with its \<^verbatim>\<open>ok\<close> flag,
  its status text and its body (\<open>None\<close> when \<^verbatim>\<open>res.json()\<close> rejects).
\<close>

datatype response = Rejected | Response bool string "payload option"

datatype error =
  NetworkError
  | FetchFailed string
  | SyntaxError
  | UnexpectedFormat
  | TypeError

definition nullish :: "'a option \<Rightarrow> 'a \<Rightarrow> 'a" where
  "nullish x d = (case x of None \<Rightarrow> d | Some v \<Rightarrow> v)"

text \<open>The decimal digits of a count, as a template literal prints it.\<close>

definition digit :: "nat \<Rightarrow> char" where
  "digit d = char_of (d + 48)"

fun toString :: "nat \<Rightarrow> string" where
  "toString n = (if 10 \<le> n then toString (n div 10) @ [digit (n mod 10)] else [digit n])"

declare toString.simps [simp del]

text \<open>The body of the inner loop: one entry of a chunk pushed onto \<open>bars\<close>.\<close>

definition expandEntry :: "int \<Rightarrow> ChunkEntry \<Rightarrow> Bar" where
  "expandEntry start entry =
     \<lparr>Time = eTime entry + start,
      Open = nullish (eOpen entry) 0,
      High = nullish (eHigh entry) 0,
      Low = nullish (eLow entry) 0,
      Close = nullish (eClose entry) 0,
      TickVolume = eTickVolume entry\<rparr>"

fun pushEntries :: "int \<Rightarrow> ChunkEntry list \<Rightarrow> Bar list \<Rightarrow> Bar list" where
  "pushEntries start [] bars' = bars'"
| "pushEntries start (entry # rest) bars' = pushEntries start rest (bars' @ [expandEntry start entry])"

text \<open>
  The outer loop over the chunks, from index \<open>i\<close>: it returns the bars pushed and the
  progress reports made, in order.
\<close>

fun processChunks ::
  "nat \<Rightarrow> nat \<Rightarrow> BarChunk list \<Rightarrow> Bar list \<Rightarrow> Bar list \<times> (jsnum \<times> string) list" where
  "processChunks totalChunks i [] bars' = (bars', [])"
| "processChunks totalChunks i (chunk # rest) bars' =
     (let start = ChunkStart chunk;
          bars'' = pushEntries start (Bars chunk) bars';
          chunkProgress = jadd (Fin 70) (jmul (jdiv (Fin (real i)) (Fin (real totalChunks))) (Fin 20));
          report = (chunkProgress,
            ''Processing chunk '' @ toString (i + 1) @ ''/'' @ toString totalChunks @ ''...'');
          (out, reports) = processChunks totalChunks (i + 1) rest bars''
      in (out, report # reports))"

text \<open>
  \<^verbatim>\<open>bars.sort((a, b) => a.Time - b.Time)\<close>: the sort of an array is stable, so it is
  the stable sort by \<open>Time\<close>.
\<close>

definition sortByTime :: "Bar list \<Rightarrow> Bar list" where
  "sortByTime bars' = sort_key Time bars'"

text \<open>
  The loader returns the progress reports it made through \<^verbatim>\<open>onProgress\<close>, in order,
  and either the error it throws or the bars.
\<close>

definition loadForexTesterChunk :: "response \<Rightarrow> (jsnum \<times> string) list \<times> (error + Bar list)" where
  "loadForexTesterChunk res =
     (case res of
        Rejected \<Rightarrow> ([(Fin 10, ''Connecting to server...'')], Inl NetworkError)
      | Response ok statusText body \<Rightarrow>
          if \<not> ok then
            ([(Fin 10, ''Connecting to server...'')],
             Inl (FetchFailed (''Failed to fetch data: '' @ statusText)))
          else
            (case body of
               None \<Rightarrow>
                 ([(Fin 10, ''Connecting to server...''), (Fin 50, ''Processing data...'')],
                  Inl SyntaxError)
             | Some NotArray \<Rightarrow>
                 ([(Fin 10, ''Connecting to server...''), (Fin 50, ''Processing data...'')],
                  Inl UnexpectedFormat)
             | Some (FlatBars json) \<Rightarrow>
                 if 0 < length json then
                   ([(Fin 10, ''Connecting to server...''), (Fin 50, ''Processing data...''),
                     (Fin 80, ''Sorting data...''), (Fin 100, ''Data loaded successfully!'')],
                    Inr (sortByTime json))
                 else
                   ([(Fin 10, ''Connecting to server...''), (Fin 50, ''Processing data...''),
                     (Fin 70, ''Processing chunks...''),
                     (Fin 95, ''Sorting data...''), (Fin 100, ''Data loaded successfully!'')],
                    Inr (sortByTime []))
             | Some (Chunks json) \<Rightarrow>
                 (let (bars', reports) = processChunks (length json) 0 json []
                  in ([(Fin 10, ''Connecting to server...''), (Fin 50, ''Processing data...''),
                       (Fin 70, ''Processing chunks...'')] @ reports @
                      [(Fin 95, ''Sorting data...''), (Fin 100, ''Data loaded successfully!'')],
                      Inr (sortByTime bars')))))"

section \<open>Reading the bar array\<close>

text \<open>
  \<^verbatim>\<open>bars[idx]\<close> for a number \<open>idx\<close>: the element when \<open>idx\<close> is an integer within
  the array, \<^verbatim>\<open>undefined\<close> (here \<open>None\<close>) otherwise.
\<close>

fun array_at :: "'a list \<Rightarrow> jsnum \<Rightarrow> 'a option" where
  "array_at xs (Fin r) =
     (if r = of_int \<lfloor>r\<rfloor> \<and> 0 \<le> r \<and> r < real (length xs) then Some (xs ! nat \<lfloor>r\<rfloor>) else None)"
| "array_at xs _ = None"

text \<open>
  The loop header that \<^verbatim>\<open>drawBars\<close>, \<^verbatim>\<open>drawTickVolumes\<close>, \<^verbatim>\<open>calculatePriceRange\<close>
  and \<^verbatim>\<open>calculateVolumeMax\<close> share:
  \<^verbatim>\<open>for (let i = 0; i < visibleCount; i++) { const bar = bars[Math.floor(startIndex + i)]; if (!bar) break; ... }\<close>.
  \<open>visibleBars\<close> lists the iterations that reach the loop body, from \<open>i\<close> on, each
  with its bar; the bodies do not change what the header reads.
\<close>

function visibleBars :: "Bar list \<Rightarrow> jsnum \<Rightarrow> jsnum \<Rightarrow> nat \<Rightarrow> (nat \<times> Bar) list" where
  "visibleBars bars' startIndex visibleCount' i =
     (if jlt (Fin (real i)) visibleCount' then
        (case array_at bars' (Math_floor (jadd startIndex (Fin (real i)))) of
           None \<Rightarrow> []
         | Some bar \<Rightarrow> (i, bar) # visibleBars bars' startIndex visibleCount' (Suc i))
      else [])"
  by pat_completeness auto
termination
proof (relation "measure (\<lambda>(bars', startIndex, visibleCount', i).
    (case startIndex of Fin r \<Rightarrow> nat (int (length bars') - \<lfloor>r\<rfloor> - int i) | _ \<Rightarrow> 0))")
  show "wf (measure (\<lambda>(bars', startIndex, visibleCount', i).
    (case startIndex of Fin r \<Rightarrow> nat (int (length bars') - \<lfloor>r\<rfloor> - int i) | _ \<Rightarrow> 0)))"
    by simp
next
  fix bars' :: "Bar list" and startIndex visibleCount' :: jsnum and i :: nat and bar :: Bar
  assume some: "array_at bars' (Math_floor (jadd startIndex (Fin (real i)))) = Some bar"
  then obtain r where r: "startIndex = Fin r"
    by (cases startIndex) simp_all
  have fl: "\<lfloor>r + real i\<rfloor> = \<lfloor>r\<rfloor> + int i"
    by linarith
  from some r fl have "real_of_int (\<lfloor>r\<rfloor> + int i) < real (length bars')"
    by (simp split: if_splits)
  then have "\<lfloor>r\<rfloor> + int i < int (length bars')"
    by linarith
  with r show "((bars', startIndex, visibleCount', Suc i), (bars', startIndex, visibleCount', i))
      \<in> measure (\<lambda>(bars', startIndex, visibleCount', i).
          (case startIndex of Fin r \<Rightarrow> nat (int (length bars') - \<lfloor>r\<rfloor> - int i) | _ \<Rightarrow> 0))"
    by simp
qed

text \<open>
  The loop of \<^verbatim>\<open>drawGraph\<close> breaks as soon as the bar or its successor is missing:
  \<open>graphSegments\<close> lists the iterations that reach the body, with both bars.
\<close>

function graphSegments :: "Bar list \<Rightarrow> jsnum \<Rightarrow> jsnum \<Rightarrow> nat \<Rightarrow> (nat \<times> Bar \<times> Bar) list" where
  "graphSegments bars' startIndex visibleCount' i =
     (if jlt (Fin (real i)) visibleCount' then
        (let idx = Math_floor (jadd startIndex (Fin (real i)))
         in case array_at bars' idx of
              None \<Rightarrow> []
            | Some bar \<Rightarrow>
                (case array_at bars' (jadd idx (Fin 1)) of
                   None \<Rightarrow> []
                 | Some nextBar \<Rightarrow>
                     (i, bar, nextBar) # graphSegments bars' startIndex visibleCount' (Suc i)))
      else [])"
  by pat_completeness auto
termination
proof (relation "measure (\<lambda>(bars', startIndex, visibleCount', i).
    (case startIndex of Fin r \<Rightarrow> nat (int (length bars') - \<lfloor>r\<rfloor> - int i) | _ \<Rightarrow> 0))")
  show "wf (measure (\<lambda>(bars', startIndex, visibleCount', i).
    (case startIndex of Fin r \<Rightarrow> nat (int (length bars') - \<lfloor>r\<rfloor> - int i) | _ \<Rightarrow> 0)))"
    by simp
next
  fix bars' :: "Bar list" and startIndex visibleCount' idx :: jsnum and i :: nat and bar :: Bar
  assume idx: "idx = Math_floor (jadd startIndex (Fin (real i)))"
    and some: "array_at bars' idx = Some bar"
  then obtain r where r: "startIndex = Fin r"
    by (cases startIndex) simp_all
  have fl: "\<lfloor>r + real i\<rfloor> = \<lfloor>r\<rfloor> + int i"
    by linarith
  from some idx r fl have "real_of_int (\<lfloor>r\<rfloor> + int i) < real (length bars')"
    by (simp split: if_splits)
  then have "\<lfloor>r\<rfloor> + int i < int (length bars')"
    by linarith
  with r show "((bars', startIndex, visibleCount', Suc i), (bars', startIndex, visibleCount', i))
      \<in> measure (\<lambda>(bars', startIndex, visibleCount', i).
          (case startIndex of Fin r \<Rightarrow> nat (int (length bars') - \<lfloor>r\<rfloor> - int i) | _ \<Rightarrow> 0))"
    by simp
qed

declare visibleBars.simps [simp del]
declare graphSegments.simps [simp del]

section \<open>Renderer\<close>

text \<open>
  A pass returns the calls it makes on the 2D context, in order. The passes that read
  no bar (the scales, the date labels, the loading indicator) are one entry each.
\<close>

datatype draw_op =
  Save
  | Restore
  | ClearRect jsnum jsnum jsnum jsnum
  | FillRect string jsnum jsnum jsnum jsnum
  | BeginPath
  | MoveTo jsnum jsnum
  | LineTo jsnum jsnum
  | QuadraticCurveTo jsnum jsnum jsnum jsnum
  | Stroke string jsnum
  | LoadingIndicator jsnum string
  | PriceScale jsnum jsnum jsnum jsnum jsnum
  | VolumeScale jsnum jsnum
  | DateLabels jsnum jsnum jsnum jsnum jsnum

definition COLORS_background :: string where "COLORS_background = ''#181a20''"
definition COLORS_bull :: string where "COLORS_bull = ''#2ebd85''"
definition COLORS_bear :: string where "COLORS_bear = ''#f6465d''"
definition COLORS_panelBorder :: string where "COLORS_panelBorder = ''#404552''"

definition priceToY :: "jsnum \<Rightarrow> jsnum \<Rightarrow> jsnum \<Rightarrow> jsnum \<Rightarrow> jsnum \<Rightarrow> jsnum" where
  "priceToY top' bottom minPrice maxPrice p =
     jadd top' (jmul (jdiv (jsub maxPrice p) (jsub maxPrice minPrice)) (jsub bottom top'))"

definition drawBar ::
  "jsnum \<Rightarrow> jsnum \<Rightarrow> jsnum \<Rightarrow> jsnum \<Rightarrow> jsnum \<Rightarrow> jsnum \<Rightarrow> jsnum \<Rightarrow> nat \<times> Bar \<Rightarrow> draw_op list" where
  "drawBar left top' bottom minPrice maxPrice barWidth' spacing' ib =
     (let i = Fin (real (fst ib)); bar = snd ib;
          bull = (Close bar \<ge> Open bar);
          color = (if bull then COLORS_bull else COLORS_bear);
          x = jadd left (jmul i (jadd barWidth' spacing'));
          o' = priceToY top' bottom minPrice maxPrice (Fin (Open bar));
          h = priceToY top' bottom minPrice maxPrice (Fin (High bar));
          l = priceToY top' bottom minPrice maxPrice (Fin (Low bar));
          c = priceToY top' bottom minPrice maxPrice (Fin (Close bar));
          bodyTop = Math_min o' c;
          bodyBottom = Math_max o' c
      in [BeginPath,
          MoveTo (jadd x (jdiv barWidth' (Fin 2))) h,
          LineTo (jadd x (jdiv barWidth' (Fin 2))) l,
          Stroke color (Math_max (Fin 1) (Math_floor (jdiv barWidth' (Fin 8)))),
          FillRect color x bodyTop barWidth' (Math_max (Fin 1) (jsub bodyBottom bodyTop))])"

definition drawBars ::
  "jsnum \<Rightarrow> jsnum \<Rightarrow> jsnum \<Rightarrow> Bar list \<Rightarrow> jsnum \<Rightarrow> jsnum \<Rightarrow> jsnum \<Rightarrow> jsnum \<Rightarrow> jsnum \<Rightarrow> jsnum
     \<Rightarrow> draw_op list" where
  "drawBars left top' bottom bars' startIndex visibleCount' minPrice maxPrice barWidth' spacing' =
     [Save] @
     concat (map (drawBar left top' bottom minPrice maxPrice barWidth' spacing')
       (visibleBars bars' startIndex visibleCount' 0)) @
     [Restore]"

definition drawSegment ::
  "jsnum \<Rightarrow> jsnum \<Rightarrow> jsnum \<Rightarrow> jsnum \<Rightarrow> jsnum \<Rightarrow> jsnum \<Rightarrow> jsnum \<Rightarrow> nat \<times> Bar \<times> Bar \<Rightarrow> draw_op" where
  "drawSegment left top' bottom minPrice maxPrice barWidth' spacing' seg =
     (let i = Fin (real (fst seg)); bar = fst (snd seg); nextBar = snd (snd seg);
          x = jadd left (jmul i (jadd barWidth' spacing'));
          nextX = jadd left (jmul (jadd i (Fin 1)) (jadd barWidth' spacing'));
          close = priceToY top' bottom minPrice maxPrice (Fin (Close bar));
          nextClose = priceToY top' bottom minPrice maxPrice (Fin (Close nextBar));
          xc = jdiv (jadd (jadd x nextX) barWidth') (Fin 2);
          yc = jdiv (jadd close nextClose) (Fin 2)
      in QuadraticCurveTo (jadd x (jdiv barWidth' (Fin 2))) close xc yc)"

text \<open>
  \<^verbatim>\<open>drawGraph\<close> reads \<^verbatim>\<open>bars[startIndex + 0].Close\<close> before its loop: when that bar is
  \<^verbatim>\<open>undefined\<close> the property access throws a TypeError.
\<close>

definition drawGraph ::
  "jsnum \<Rightarrow> jsnum \<Rightarrow> jsnum \<Rightarrow> Bar list \<Rightarrow> jsnum \<Rightarrow> jsnum \<Rightarrow> jsnum \<Rightarrow> jsnum \<Rightarrow> jsnum \<Rightarrow> jsnum
     \<Rightarrow> error + draw_op list" where
  "drawGraph left top' bottom bars' startIndex visibleCount' minPrice maxPrice barWidth' spacing' =
     (case array_at bars' (jadd startIndex (Fin 0)) of
        None \<Rightarrow> Inl TypeError
      | Some startBar \<Rightarrow>
          (let startClose = priceToY top' bottom minPrice maxPrice (Fin (Close startBar))
           in Inr ([Save, BeginPath, MoveTo (jadd left (jdiv barWidth' (Fin 2))) startClose] @
                map (drawSegment left top' bottom minPrice maxPrice barWidth' spacing')
                  (graphSegments bars' startIndex visibleCount' 0) @
                [Stroke COLORS_panelBorder (Math_max (Fin 1) (Math_floor (jdiv barWidth' (Fin 8)))),
                 Restore])))"

definition drawTickVolume :: "jsnum \<Rightarrow> jsnum \<Rightarrow> jsnum \<Rightarrow> jsnum \<Rightarrow> jsnum \<Rightarrow> nat \<times> Bar \<Rightarrow> draw_op" where
  "drawTickVolume left clientHeight' maxVolume barWidth' spacing' ib =
     (let i = Fin (real (fst ib)); bar = snd ib;
          bull = (Close bar \<ge> Open bar);
          color = (if bull then COLORS_bull else COLORS_bear);
          x = jadd left (jmul i (jadd barWidth' spacing'))
      in FillRect color x clientHeight' barWidth'
           (jneg (jmul (jdiv (Fin (TickVolume bar)) maxVolume) (Fin 50))))"

definition drawTickVolumes ::
  "jsnum \<Rightarrow> jsnum \<Rightarrow> Bar list \<Rightarrow> jsnum \<Rightarrow> jsnum \<Rightarrow> jsnum \<Rightarrow> jsnum \<Rightarrow> jsnum \<Rightarrow> draw_op list" where
  "drawTickVolumes left clientHeight' bars' startIndex visibleCount' maxVolume barWidth' spacing' =
     [Save] @
     map (drawTickVolume left clientHeight' maxVolume barWidth' spacing')
       (visibleBars bars' startIndex visibleCount' 0) @
     [Restore]"

section \<open>Chart\<close>

record Canvas =
  clientWidth :: jsnum
  clientHeight :: jsnum
  width :: jsnum
  height :: jsnum
  devicePixelRatio :: jsnum

text \<open>
  The fields of the chart. \<open>animHandle\<close> tells whether a frame callback for \<^verbatim>\<open>render\<close>
  is pending; \<open>showVolume\<close> is \<^verbatim>\<open>config.showVolume\<close>. Times and pointer coordinates
  come from the browser and are finite.
\<close>

record Chart =
  bars :: "Bar list"
  viewport :: Viewport
  animHandle :: bool
  dragging :: bool
  lastDragX :: real
  lastMouseMoveTime :: real
  lastPanTime :: real
  mouseMoveThrottle :: real
  panVelocity :: jsnum
  isPanning :: bool
  isLoading :: bool
  loadingProgress :: jsnum
  loadingMessage :: string
  showVolume :: bool

text \<open>The chart as its constructor leaves it: no bars, not loading, a render scheduled.\<close>

definition Chart_new :: "bool \<Rightarrow> Chart" where
  "Chart_new volume =
     \<lparr>bars = [], viewport = Viewport_new (Fin 200), animHandle = True, dragging = False,
      lastDragX = 0, lastMouseMoveTime = 0, lastPanTime = 0, mouseMoveThrottle = 16,
      panVelocity = Fin 0, isPanning = False, isLoading = False, loadingProgress = Fin 0,
      loadingMessage = ''Loading data...'', showVolume = volume\<rparr>"

definition scheduleRender :: "Chart \<Rightarrow> Chart" where
  "scheduleRender c = (if animHandle c then c else c\<lparr>animHandle := True\<rparr>)"

definition setInitialData :: "Chart \<Rightarrow> Bar list \<Rightarrow> Chart" where
  "setInitialData c bars' =
     scheduleRender
       (c\<lparr>bars := bars',
          viewport := (viewport c)\<lparr>offsetIndex :=
            Math_max (Fin 0) (jsub (Fin (real (length bars'))) (visibleCount (viewport c)))\<rparr>\<rparr>)"

definition setLoading :: "Chart \<Rightarrow> bool \<Rightarrow> jsnum \<Rightarrow> string \<Rightarrow> Chart" where
  "setLoading c loading progress message =
     scheduleRender
       (c\<lparr>isLoading := loading,
          loadingProgress := Math_max (Fin 0) (Math_min (Fin 100) progress),
          loadingMessage := message\<rparr>)"

text \<open>
  \<^verbatim>\<open>loadData\<close>: the progress reports of the loader each call \<^verbatim>\<open>setLoading(true, ...)\<close>;
  the \<^verbatim>\<open>catch\<close> clears the loading flag and rethrows. The call is modelled from its
  start to the settling of its promise, with no other handler running in between.
\<close>

definition loadData :: "Chart \<Rightarrow> response \<Rightarrow> Chart \<times> (error + unit)" where
  "loadData c res =
     (let c1 = setLoading c True (Fin 0) ''Starting data load...'';
          (reports, result) = loadForexTesterChunk res;
          c2 = foldl (\<lambda>c' (progress, message). setLoading c' True progress message) c1 reports
      in case result of
           Inr bars' \<Rightarrow>
             (setLoading (setInitialData c2 bars') False (Fin 0) ''Loading data...'', Inr ())
         | Inl e \<Rightarrow> (setLoading c2 False (Fin 0) ''Loading data...'', Inl e))"

definition getVisibleRange :: "Canvas \<Rightarrow> Chart \<Rightarrow> jsnum \<times> jsnum" where
  "getVisibleRange canvas c =
     (let canvasWidth = jor (clientWidth canvas) (width canvas);
          totalBarSpan = jadd (barWidth (viewport c)) (spacing (viewport c));
          visibleCount' = Math_floor (jdiv canvasWidth totalBarSpan)
      in (visibleCount', Math_floor (offsetIndex (viewport c))))"

definition calculatePriceRange :: "Bar list \<Rightarrow> jsnum \<Rightarrow> jsnum \<Rightarrow> jsnum \<times> jsnum" where
  "calculatePriceRange bars' startIndex visibleCount' =
     (let (min0, max0) =
            foldl (\<lambda>(mn, mx) (i, bar). (Math_min mn (Fin (Low bar)), Math_max mx (Fin (High bar))))
              (PInf, NInf) (visibleBars bars' startIndex visibleCount' 0);
          (min1, max1) =
            (if \<not> isFinite min0 \<or> \<not> isFinite max0 then (Fin 0, Fin 1) else (min0, max0));
          pad = jor (jmul (jsub max1 min1) (Fin 0.05)) (Fin 0.000001)
      in (jsub min1 pad, jadd max1 pad))"

definition calculateVolumeMax :: "Bar list \<Rightarrow> jsnum \<Rightarrow> jsnum \<Rightarrow> jsnum" where
  "calculateVolumeMax bars' startIndex visibleCount' =
     (let max0 = foldl (\<lambda>mx (i, bar). Math_max mx (Fin (TickVolume bar)))
                   NInf (visibleBars bars' startIndex visibleCount' 0);
          max1 = (if \<not> isFinite max0 then Fin 1 else max0);
          pad = jor (jmul max1 (Fin 0.05)) (Fin 0.000001)
      in jadd max1 pad)"

text \<open>
  \<^verbatim>\<open>render\<close>: the visible range is read first, then the offset is clamped from above
  with an overscroll of 50 bars; the passes draw from the start index read before the
  clamp. It returns the chart and either the error thrown or the calls drawn.
\<close>

definition render :: "Canvas \<Rightarrow> Chart \<Rightarrow> Chart \<times> (error + draw_op list)" where
  "render canvas c =
     (let additionalOffset = Fin 50;
          (visibleCount', startIndex) = getVisibleRange canvas c;
          c1 = (if jlt (jadd (Fin (real (length (bars c)))) additionalOffset)
                     (jadd (offsetIndex (viewport c)) visibleCount')
                then c\<lparr>viewport := (viewport c)\<lparr>offsetIndex :=
                       Math_max (Fin 0)
                         (jadd (jsub (Fin (real (length (bars c)))) visibleCount') additionalOffset)\<rparr>\<rparr>
                else c);
          left = Fin 10;
          right = jsub (jdiv (width canvas) (jor (devicePixelRatio canvas) (Fin 1))) (Fin 90);
          top' = Fin 10;
          bottom = jsub (jdiv (height canvas) (jor (devicePixelRatio canvas) (Fin 1))) (Fin 90);
          cleared = [ClearRect (Fin 0) (Fin 0) (width canvas) (height canvas),
                     FillRect COLORS_background (Fin 0) (Fin 0) (width canvas) (height canvas)]
      in if isLoading c1 then
           (c1, Inr (cleared @ [LoadingIndicator (loadingProgress c1) (loadingMessage c1)]))
         else
           (let (minPrice, maxPrice) = calculatePriceRange (bars c1) startIndex visibleCount';
                maxVolume = calculateVolumeMax (bars c1) startIndex visibleCount'
            in case drawGraph left top' bottom (bars c1) startIndex visibleCount' minPrice maxPrice
                      (barWidth (viewport c1)) (spacing (viewport c1)) of
                 Inl e \<Rightarrow> (c1, Inl e)
               | Inr graph \<Rightarrow>
                   (c1, Inr (cleared @ graph @
                      drawBars left top' bottom (bars c1) startIndex visibleCount' minPrice maxPrice
                        (barWidth (viewport c1)) (spacing (viewport c1)) @
                      (if showVolume c1 then
                         drawTickVolumes left (clientHeight canvas) (bars c1) startIndex visibleCount'
                           maxVolume (barWidth (viewport c1)) (spacing (viewport c1))
                       else []) @
                      [PriceScale (jdiv (width canvas) (jor (devicePixelRatio canvas) (Fin 1)))
                         top' bottom minPrice maxPrice,
                       VolumeScale (jdiv (width canvas) (jor (devicePixelRatio canvas) (Fin 1)))
                         maxVolume,
                       DateLabels bottom left (jsub right left) startIndex visibleCount']))))"

text \<open>The frame callback that \<^verbatim>\<open>scheduleRender\<close> arms.\<close>

definition frame :: "Canvas \<Rightarrow> Chart \<Rightarrow> Chart \<times> (error + draw_op list)" where
  "frame canvas c = render canvas (c\<lparr>animHandle := False\<rparr>)"

subsection \<open>Interaction\<close>

text \<open>
  The handlers of \<^verbatim>\<open>setupInteraction\<close> take what they read from the event and the
  clock as arguments. The touch handlers repeat the mouse handlers on the first touch
  point and are left out.

  \<^verbatim>\<open>updateMomentum\<close> at time \<open>now\<close>: it returns the chart and whether it has asked
  for another call of itself at the next frame.
\<close>

definition updateMomentum :: "Chart \<Rightarrow> real \<Rightarrow> Chart \<times> bool" where
  "updateMomentum c now =
     (if \<not> isPanning c then (c, False)
      else
        (let c1 = c\<lparr>lastPanTime := now\<rparr>
         in if jlt (Fin 0.1) (Math_abs (panVelocity c1)) then
              (scheduleRender
                 (c1\<lparr>viewport := panBy (viewport c1) (panVelocity c1),
                     panVelocity := jmul (panVelocity c1) (Fin 0.97)\<rparr>),
               True)
            else (c1, False)))"

definition wheel :: "Chart \<Rightarrow> real \<Rightarrow> real \<Rightarrow> real \<Rightarrow> Chart" where
  "wheel c clientX rectLeft deltaY =
     (let mouseX = clientX - rectLeft;
          zoomSpeed = 0.02;
          delta = (if deltaY > 0 then 1 - zoomSpeed else 1 + zoomSpeed)
      in scheduleRender (c\<lparr>viewport := zoomAt (viewport c) (Fin mouseX) (Fin delta)\<rparr>))"

definition mousedown :: "Chart \<Rightarrow> real \<Rightarrow> real \<Rightarrow> Chart" where
  "mousedown c clientX now =
     c\<lparr>dragging := True, isPanning := False, panVelocity := Fin 0, lastDragX := clientX,
       lastPanTime := now\<rparr>"

definition mousemove :: "Chart \<Rightarrow> real \<Rightarrow> real \<Rightarrow> Chart" where
  "mousemove c clientX now =
     (if \<not> dragging c then c
      else if now - lastMouseMoveTime c < mouseMoveThrottle c then c
      else
        (let dx = clientX - lastDragX c;
             deltaTime = now - lastPanTime c;
             c1 = c\<lparr>lastMouseMoveTime := now, lastDragX := clientX\<rparr>;
             c2 = (if deltaTime > 0 then c1\<lparr>panVelocity := Fin ((dx / deltaTime) * 16)\<rparr> else c1);
             c3 = c2\<lparr>lastPanTime := now\<rparr>
         in scheduleRender (c3\<lparr>viewport := panBy (viewport c3) (Fin dx)\<rparr>)))"

definition mouseup :: "Chart \<Rightarrow> real \<Rightarrow> Chart \<times> bool" where
  "mouseup c now = updateMomentum (c\<lparr>dragging := False, isPanning := True\<rparr>) now"

definition dblclick :: "Chart \<Rightarrow> Chart" where
  "dblclick c =
     scheduleRender
       (c\<lparr>isPanning := False, panVelocity := Fin 0,
          viewport := (viewport c)\<lparr>barWidth := Fin 6,
            offsetIndex := Math_max (Fin 0) (jsub (Fin (real (length (bars c)))) (Fin 200))\<rparr>\<rparr>)"

text \<open>
  The momentum callbacks of successive frames, one per timestamp of the list, as long as
  the previous one asked for the next. The flag returned tells whether a callback is
  still pending when the list is used up.
\<close>

fun momentumFrames :: "Chart \<Rightarrow> real list \<Rightarrow> Chart \<times> bool" where
  "momentumFrames c [] = (c, True)"
| "momentumFrames c (now # rest) =
     (case updateMomentum c now of
        (c', True) \<Rightarrow> momentumFrames c' rest
      | (c', False) \<Rightarrow> (c', False))"

subsection \<open>Sequences of mutations\<close>

text \<open>
  The mutations of the chart as the browser may deliver them, in any order: the pointer
  and wheel events, a momentum callback, a frame callback of \<^verbatim>\<open>render\<close>, a call of
  \<^verbatim>\<open>loadData\<close>.
\<close>

datatype action =
  Wheel real real real
  | MouseDown real real
  | MouseMove real real
  | MouseUp real
  | MomentumFrame real
  | DblClick
  | RenderFrame Canvas
  | LoadData response

fun act :: "Chart \<Rightarrow> action \<Rightarrow> Chart" where
  "act c (Wheel clientX rectLeft deltaY) = wheel c clientX rectLeft deltaY"
| "act c (MouseDown clientX now) = mousedown c clientX now"
| "act c (MouseMove clientX now) = mousemove c clientX now"
| "act c (MouseUp now) = fst (mouseup c now)"
| "act c (MomentumFrame now) = fst (updateMomentum c now)"
| "act c DblClick = dblclick c"
| "act c (RenderFrame canvas) = fst (frame canvas c)"
| "act c (LoadData res) = fst (loadData c res)"

text \<open>
  The invariant of the chart that every mutation keeps: a well-formed viewport whose
  \<open>maxBarWidth\<close> admits the bar width 6 of the double-click reset (it is 20 and never
  assigned), and a finite pan velocity.
\<close>

definition chart_ok :: "Chart \<Rightarrow> bool" where
  "chart_ok c \<longleftrightarrow>
     viewport_ok (viewport c) \<and> jle (Fin 6) (maxBarWidth (viewport c)) \<and>
     isFinite (panVelocity c)"

section \<open>Arithmetic of JavaScript numbers\<close>

lemma jsub_Fin [simp]: "jsub (Fin a) (Fin b) = Fin (a - b)"
  by (simp add: jsub_def)

lemma Math_max_Fin [simp]: "Math_max (Fin a) (Fin b) = Fin (max a b)"
  by (simp add: Math_max_def max_def)

lemma Math_min_Fin [simp]: "Math_min (Fin a) (Fin b) = Fin (min a b)"
  by (simp add: Math_min_def min_def)

lemma jmul_one [simp]: "jmul d (Fin 1) = d"
  by (cases d) simp_all

lemma jadd_NaN_left [simp]: "jadd NaN x = NaN"
  by (cases x) simp_all

lemma jadd_NaN_right [simp]: "jadd x NaN = NaN"
  by (cases x) simp_all

lemma jsub_NaN_right [simp]: "jsub x NaN = NaN"
  by (simp add: jsub_def)

lemma jsub_NaN_left [simp]: "jsub NaN x = NaN"
  by (simp add: jsub_def)

lemma jdiv_NaN_right [simp]: "jdiv x NaN = NaN"
  by (cases x) simp_all

lemma jdiv_NaN_left [simp]: "jdiv NaN x = NaN"
  by (cases x) simp_all

lemma jmul_NaN_right [simp]: "jmul x NaN = NaN"
  by (cases x) simp_all

lemma Math_max_NaN [simp]: "Math_max x NaN = NaN" "Math_max NaN x = NaN"
  by (simp_all add: Math_max_def)

lemma Math_min_NaN [simp]: "Math_min x NaN = NaN" "Math_min NaN x = NaN"
  by (simp_all add: Math_min_def)

lemma isFinite_iff: "isFinite x \<longleftrightarrow> (\<exists>r. x = Fin r)"
  by (cases x) simp_all

lemma jle_between:
  assumes "jle (Fin a) x" and "jle x (Fin b)"
  obtains r where "x = Fin r" and "a \<le> r" and "r \<le> b"
  using assms by (cases x) simp_all





section \<open>The viewport operators\<close>

text \<open>A well-formed viewport, with its fields named.\<close>

lemma viewport_okE:
  assumes "viewport_ok vp"
  obtains off bw sp mbw vc where
    "offsetIndex vp = Fin off" "barWidth vp = Fin bw" "spacing vp = Fin sp"
    "maxBarWidth vp = Fin mbw" "visibleCount vp = Fin vc"
    "0 \<le> off" "1 \<le> bw" "bw \<le> mbw" "0 \<le> sp"
proof -
  from assms obtain off sp mbw vc where f:
    "offsetIndex vp = Fin off" "spacing vp = Fin sp" "maxBarWidth vp = Fin mbw"
    "visibleCount vp = Fin vc"
    by (auto simp: viewport_ok_def isFinite_iff)
  from assms f obtain bw where b: "barWidth vp = Fin bw" "1 \<le> bw" "bw \<le> mbw"
    by (auto simp: viewport_ok_def elim: jle_between)
  from assms f have "0 \<le> off" "0 \<le> sp"
    by (simp_all add: viewport_ok_def)
  with f b show ?thesis by (auto intro: that)
qed

lemma newBarWidth_range:
  assumes "jle (Fin 1) (barWidth vp)" "jle (barWidth vp) (maxBarWidth vp)"
    "isFinite (maxBarWidth vp)" "f \<noteq> NaN"
  shows "jle (Fin 1) (newBarWidth vp f) \<and> jle (newBarWidth vp f) (maxBarWidth vp)"
proof -
  from assms(3) obtain m where m: "maxBarWidth vp = Fin m" by (cases "maxBarWidth vp") simp_all
  from assms(1,2) m obtain b where b: "barWidth vp = Fin b" "1 \<le> b" "b \<le> m"
    by (auto elim: jle_between)
  show ?thesis using assms(4) b m
    by (cases f) (simp_all add: newBarWidth_def Math_min_def Math_max_def)
qed


lemma panBy_ok:
  assumes "viewport_ok vp"
  shows "viewport_ok (panBy vp (Fin d))"
proof -
  from assms(1) obtain off bw sp mbw vc where f:
    "offsetIndex vp = Fin off" "barWidth vp = Fin bw" "spacing vp = Fin sp"
    "maxBarWidth vp = Fin mbw" "visibleCount vp = Fin vc"
    "0 \<le> off" "1 \<le> bw" "bw \<le> mbw" "0 \<le> sp"
    by (rule viewport_okE)
  then have "bw + sp \<noteq> 0" by linarith
  with f show ?thesis
    by (simp add: viewport_ok_def panBy_def deltaIndex_def)
qed

lemma zoomAt_ok:
  assumes "viewport_ok vp" and "f \<noteq> NaN"
  shows "viewport_ok (zoomAt vp (Fin p) f)"
proof -
  from assms(1) obtain off bw sp mbw vc where f:
    "offsetIndex vp = Fin off" "barWidth vp = Fin bw" "spacing vp = Fin sp"
    "maxBarWidth vp = Fin mbw" "visibleCount vp = Fin vc"
    "0 \<le> off" "1 \<le> bw" "bw \<le> mbw" "0 \<le> sp"
    by (rule viewport_okE)
  have "jle (Fin 1) (newBarWidth vp f) \<and> jle (newBarWidth vp f) (maxBarWidth vp)"
    using assms f by (intro newBarWidth_range) simp_all
  then obtain nbw where n: "newBarWidth vp f = Fin nbw" "1 \<le> nbw" "nbw \<le> mbw"
    using f by (auto elim: jle_between)
  have "bw + sp \<noteq> 0" "nbw + sp \<noteq> 0" using f n by linarith+
  with f n assms(1) show ?thesis
    by (simp add: viewport_ok_def zoomAt_def newOffset_def centerIndexFloat_def)
qed

lemma panBy_fields [simp]:
  "barWidth (panBy vp d) = barWidth vp"
  "spacing (panBy vp d) = spacing vp"
  "maxBarWidth (panBy vp d) = maxBarWidth vp"
  "visibleCount (panBy vp d) = visibleCount vp"
  by (simp_all add: panBy_def)

lemma zoomAt_fields [simp]:
  "spacing (zoomAt vp p f) = spacing vp"
  "maxBarWidth (zoomAt vp p f) = maxBarWidth vp"
  "visibleCount (zoomAt vp p f) = visibleCount vp"
  by (simp_all add: zoomAt_def)





lemma newBarWidth_NaN: "newBarWidth vp NaN = NaN"
  by (cases "barWidth vp") (simp_all add: newBarWidth_def Math_min_def Math_max_def)

lemma newOffset_NaN: "newOffset vp p NaN = NaN"
  by (simp add: newOffset_def newBarWidth_NaN)

subsection \<open>Zoom\<close>






subsection \<open>Pan\<close>



subsection \<open>Non-finite inputs\<close>

lemma zoomAt_NaN_factor:
  "barWidth (zoomAt vp p NaN) = NaN \<and> offsetIndex (zoomAt vp p NaN) = NaN"
  by (simp add: zoomAt_def newBarWidth_NaN newOffset_NaN)

lemma panBy_NaN: "offsetIndex (panBy vp NaN) = NaN"
  by (simp add: panBy_def deltaIndex_def)

lemma viewport_ok_finite:
  "viewport_ok vp \<Longrightarrow> isFinite (offsetIndex vp) \<and> isFinite (barWidth vp)"
  by (auto elim: viewport_okE)

text \<open>
  C3, as the code has it. The viewport operators are total (no call throws) and have no
  guard against a non-finite input: \<^verbatim>\<open>panBy(NaN)\<close> sets \<open>offsetIndex\<close> to NaN and
  \<^verbatim>\<open>zoomAt\<close> with a NaN factor sets \<open>barWidth\<close> and \<open>offsetIndex\<close> to NaN, whatever the
  viewport. With finite inputs a well-formed viewport stays well-formed: \<open>offsetIndex\<close>
  and \<open>barWidth\<close> stay finite, and \<^verbatim>\<open>panBy\<close> leaves \<open>barWidth\<close> as it is.
\<close>

theorem viewport_operators_finite_inputs:
  "offsetIndex (panBy vp NaN) = NaN \<and>
   barWidth (zoomAt vp p NaN) = NaN \<and> offsetIndex (zoomAt vp p NaN) = NaN \<and>
   (viewport_ok vp \<longrightarrow>
      viewport_ok (panBy vp (Fin d)) \<and> isFinite (offsetIndex (panBy vp (Fin d))) \<and>
      barWidth (panBy vp (Fin d)) = barWidth vp \<and>
      viewport_ok (zoomAt vp (Fin x) (Fin f)) \<and> isFinite (offsetIndex (zoomAt vp (Fin x) (Fin f))) \<and>
      isFinite (barWidth (zoomAt vp (Fin x) (Fin f))))"
proof (intro conjI impI)
  assume ok: "viewport_ok vp"
  then show p: "viewport_ok (panBy vp (Fin d))" by (rule panBy_ok)
  then show "isFinite (offsetIndex (panBy vp (Fin d)))" by (simp add: viewport_ok_finite)
  from ok show z: "viewport_ok (zoomAt vp (Fin x) (Fin f))" by (simp add: zoomAt_ok)
  then show "isFinite (offsetIndex (zoomAt vp (Fin x) (Fin f)))"
    and "isFinite (barWidth (zoomAt vp (Fin x) (Fin f)))"
    by (simp_all add: viewport_ok_finite)
qed (simp_all add: panBy_NaN zoomAt_NaN_factor)

text \<open>The initial viewport: panned by NaN and by -700 pixels, zoomed by 1.02 at pixel 100.\<close>

theorem viewport_operators_finite_inputs_witness:
  "viewport_ok (Viewport_new (Fin 200)) \<and>
   offsetIndex (panBy (Viewport_new (Fin 200)) NaN) = NaN \<and>
   offsetIndex (panBy (Viewport_new (Fin 200)) (Fin (- 700))) = Fin 100 \<and>
   barWidth (zoomAt (Viewport_new (Fin 200)) (Fin 100) (Fin 1.02)) = Fin 6.12 \<and>
   isFinite (offsetIndex (zoomAt (Viewport_new (Fin 200)) (Fin 100) (Fin 1.02)))"
  using viewport_operators_finite_inputs [of "Viewport_new (Fin 200)" "Fin 100" "- 700" 100 "1.02"]
  by (simp add: Viewport_new_def viewport_ok_def panBy_def deltaIndex_def zoomAt_def
      newBarWidth_def newOffset_def centerIndexFloat_def)

text \<open>
  C3 as stated fails: a NaN delta is not ignored, it replaces the finite offset of the
  initial viewport by NaN; an infinite delta resets the offset 5 to 0; a NaN factor makes
  the bar width NaN; an infinite pivot makes the offset NaN.
\<close>

theorem non_finite_input_counterexample:
  "isFinite (offsetIndex (Viewport_new (Fin 200))) \<and>
   offsetIndex (panBy (Viewport_new (Fin 200)) NaN) = NaN \<and>
   \<not> isFinite (offsetIndex (panBy (Viewport_new (Fin 200)) NaN)) \<and>
   offsetIndex (panBy (Viewport_new (Fin 200)) NaN) \<noteq> offsetIndex (Viewport_new (Fin 200)) \<and>
   offsetIndex (panBy ((Viewport_new (Fin 200))\<lparr>offsetIndex := Fin 5\<rparr>) PInf) = Fin 0 \<and>
   barWidth (zoomAt (Viewport_new (Fin 200)) (Fin 100) NaN) = NaN \<and>
   offsetIndex (zoomAt (Viewport_new (Fin 200)) PInf (Fin 1.02)) = NaN"
  by (simp add: Viewport_new_def panBy_def deltaIndex_def zoomAt_def newBarWidth_def
      newOffset_def centerIndexFloat_def jsub_def Math_max_def)

section \<open>The chart\<close>

lemma scheduleRender_fields [simp]:
  "viewport (scheduleRender c) = viewport c"
  "panVelocity (scheduleRender c) = panVelocity c"
  "bars (scheduleRender c) = bars c"
  "isLoading (scheduleRender c) = isLoading c"
  "isPanning (scheduleRender c) = isPanning c"
  by (simp_all add: scheduleRender_def)

lemma setLoading_fields [simp]:
  "viewport (setLoading c l p m) = viewport c"
  "panVelocity (setLoading c l p m) = panVelocity c"
  "bars (setLoading c l p m) = bars c"
  "isLoading (setLoading c l p m) = l"
  by (simp_all add: setLoading_def)

lemma foldl_setLoading_fields [simp]:
  "viewport (foldl (\<lambda>c' (progress, message). setLoading c' True progress message) c rs) = viewport c"
  "panVelocity (foldl (\<lambda>c' (progress, message). setLoading c' True progress message) c rs) = panVelocity c"
  "bars (foldl (\<lambda>c' (progress, message). setLoading c' True progress message) c rs) = bars c"
  by (induction rs arbitrary: c) (simp_all add: case_prod_beta)

lemma viewport_ok_offset_update:
  assumes "viewport_ok vp" and "0 \<le> r"
  shows "viewport_ok (vp\<lparr>offsetIndex := Fin r\<rparr>)"
  using assms by (simp add: viewport_ok_def)

lemma setInitialData_ok:
  assumes "chart_ok c"
  shows "chart_ok (setInitialData c bs)"
proof -
  from assms obtain vc where "visibleCount (viewport c) = Fin vc"
    by (auto simp: chart_ok_def elim: viewport_okE)
  with assms show ?thesis
    by (simp add: chart_ok_def setInitialData_def viewport_ok_offset_update)
qed

lemma loadData_ok:
  assumes "chart_ok c"
  shows "chart_ok (fst (loadData c res))"
proof -
  obtain reports result where l: "loadForexTesterChunk res = (reports, result)"
    by (cases "loadForexTesterChunk res")
  let ?c2 = "foldl (\<lambda>c' (progress, message). setLoading c' True progress message)
              (setLoading c True (Fin 0) ''Starting data load...'') reports"
  have c2: "chart_ok ?c2" using assms by (simp add: chart_ok_def)
  show ?thesis
  proof (cases result)
    case (Inl e)
    with l c2 show ?thesis by (simp add: loadData_def chart_ok_def)
  next
    case (Inr bs)
    from c2 have "chart_ok (setInitialData ?c2 bs)" by (rule setInitialData_ok)
    with l Inr show ?thesis by (simp add: loadData_def chart_ok_def)
  qed
qed

lemma updateMomentum_ok:
  assumes "chart_ok c"
  shows "chart_ok (fst (updateMomentum c now))"
proof -
  from assms obtain v where v: "panVelocity c = Fin v"
    by (auto simp: chart_ok_def isFinite_iff)
  with assms show ?thesis
    by (simp add: updateMomentum_def chart_ok_def Let_def panBy_ok)
qed

lemma fst_render:
  "fst (render canvas c) =
     (if jlt (jadd (Fin (real (length (bars c)))) (Fin 50))
             (jadd (offsetIndex (viewport c)) (fst (getVisibleRange canvas c)))
      then c\<lparr>viewport := (viewport c)\<lparr>offsetIndex :=
             Math_max (Fin 0)
               (jadd (jsub (Fin (real (length (bars c)))) (fst (getVisibleRange canvas c))) (Fin 50))\<rparr>\<rparr>
      else c)"
  by (cases "getVisibleRange canvas c")
    (simp add: render_def Let_def split: sum.splits prod.splits)

lemma render_viewport_ok:
  assumes "viewport_ok (viewport c)"
  shows "viewport_ok (viewport (fst (render canvas c))) \<and>
         maxBarWidth (viewport (fst (render canvas c))) = maxBarWidth (viewport c) \<and>
         panVelocity (fst (render canvas c)) = panVelocity c"
proof (cases "fst (getVisibleRange canvas c)")
  case (Fin r)
  with assms show ?thesis by (simp add: fst_render viewport_ok_offset_update)
next
  case PInf
  with assms show ?thesis
    by (simp add: fst_render viewport_ok_offset_update jsub_def Math_max_def)
next
  case NInf
  from assms obtain off where "offsetIndex (viewport c) = Fin off" by (auto elim: viewport_okE)
  with NInf assms show ?thesis by (simp add: fst_render)
next
  case NaN
  with assms show ?thesis by (simp add: fst_render)
qed

lemma chart_ok_fields:
  assumes "chart_ok c"
    and "viewport_ok (viewport c')"
    and "maxBarWidth (viewport c') = maxBarWidth (viewport c)"
    and "isFinite (panVelocity c')"
  shows "chart_ok c'"
  using assms by (simp add: chart_ok_def)

lemma act_ok:
  assumes "chart_ok c"
  shows "chart_ok (act c a)"
proof (cases a)
  case (Wheel clientX rectLeft deltaY)
  with assms show ?thesis by (simp add: wheel_def chart_ok_def zoomAt_ok Let_def)
next
  case (MouseDown clientX now)
  with assms show ?thesis by (simp add: mousedown_def chart_ok_def)
next
  case (MouseMove clientX now)
  with assms show ?thesis by (simp add: mousemove_def chart_ok_def Let_def panBy_ok)
next
  case (MouseUp now)
  from assms have "chart_ok (c\<lparr>dragging := False, isPanning := True\<rparr>)"
    by (simp add: chart_ok_def)
  then have "chart_ok (fst (updateMomentum (c\<lparr>dragging := False, isPanning := True\<rparr>) now))"
    by (rule updateMomentum_ok)
  with MouseUp show ?thesis by (simp add: mouseup_def)
next
  case (MomentumFrame now)
  with assms show ?thesis by (simp add: updateMomentum_ok)
next
  case DblClick
  with assms show ?thesis
    by (simp add: dblclick_def chart_ok_def viewport_ok_def)
next
  case (RenderFrame canvas)
  from assms have "viewport_ok (viewport (c\<lparr>animHandle := False\<rparr>))" by (simp add: chart_ok_def)
  then have "viewport_ok (viewport (fst (render canvas (c\<lparr>animHandle := False\<rparr>)))) \<and>
      maxBarWidth (viewport (fst (render canvas (c\<lparr>animHandle := False\<rparr>))))
        = maxBarWidth (viewport (c\<lparr>animHandle := False\<rparr>)) \<and>
      panVelocity (fst (render canvas (c\<lparr>animHandle := False\<rparr>)))
        = panVelocity (c\<lparr>animHandle := False\<rparr>)"
    by (rule render_viewport_ok)
  with RenderFrame assms show ?thesis by (simp add: chart_ok_def frame_def)
next
  case (LoadData res)
  with assms show ?thesis by (simp add: loadData_ok)
qed

lemma foldl_act_ok: "chart_ok c \<Longrightarrow> chart_ok (foldl act c as)"
  by (induction as arbitrary: c) (simp_all add: act_ok)

lemma Chart_new_ok: "chart_ok (Chart_new volume)"
  by (simp add: chart_ok_def Chart_new_def Viewport_new_def viewport_ok_def)

lemma render_upper_bound:
  assumes ok: "viewport_ok (viewport c)"
    and cw: "isFinite (clientWidth canvas)" "isFinite (width canvas)"
  shows "jle (offsetIndex (viewport (fst (render canvas c))))
           (Math_max (Fin 0)
              (jadd (jsub (Fin (real (length (bars c)))) (fst (getVisibleRange canvas c))) (Fin 50)))"
proof -
  from ok obtain off bw sp where v:
    "offsetIndex (viewport c) = Fin off" "barWidth (viewport c) = Fin bw"
    "spacing (viewport c) = Fin sp" "0 \<le> off" "1 \<le> bw" "0 \<le> sp"
    by (auto elim: viewport_okE)
  from cw have "isFinite (jor (clientWidth canvas) (width canvas))"
    by (simp add: jor_def)
  then obtain w where w: "jor (clientWidth canvas) (width canvas) = Fin w"
    by (auto simp: isFinite_iff)
  have nz: "bw + sp \<noteq> 0" using v by linarith
  have g: "getVisibleRange canvas c = (Fin (of_int \<lfloor>w / (bw + sp)\<rfloor>), Fin (of_int \<lfloor>off\<rfloor>))"
    using v w nz by (simp add: getVisibleRange_def)
  show ?thesis
    using v g by (simp add: fst_render)
qed

text \<open>
  C2, as the code has it. From a chart that satisfies the invariant, as the new chart
  does, after every sequence
  of mutations (wheel zoom, drag pan, momentum step, double-click reset, data load,
  render) \<open>offsetIndex\<close> is at least 0. The upper bound is not kept by the mutations: it
  is what the clamp at the start of \<^verbatim>\<open>render\<close> establishes, for the visible count of
  that frame and an overscroll of 50 bars:
  \<open>offsetIndex \<le> max(0, totalBars - visibleCount + 50)\<close> after \<^verbatim>\<open>render\<close>.
\<close>

theorem offsetIndex_bounds:
  "chart_ok (Chart_new volume) \<and>
   (chart_ok c \<longrightarrow> jle (Fin 0) (offsetIndex (viewport (foldl act c as)))) \<and>
   (chart_ok c \<and> isFinite (clientWidth canvas) \<and> isFinite (width canvas) \<longrightarrow>
      jle (offsetIndex (viewport (fst (render canvas (foldl act c as)))))
        (Math_max (Fin 0)
           (jadd (jsub (Fin (real (length (bars (foldl act c as)))))
                    (fst (getVisibleRange canvas (foldl act c as))))
                 (Fin 50))))"
proof (intro conjI impI)
  show "chart_ok (Chart_new volume)" by (rule Chart_new_ok)
next
  assume "chart_ok c"
  then have "chart_ok (foldl act c as)" by (rule foldl_act_ok)
  then show "jle (Fin 0) (offsetIndex (viewport (foldl act c as)))"
    by (simp add: chart_ok_def viewport_ok_def)
next
  assume a: "chart_ok c \<and> isFinite (clientWidth canvas) \<and> isFinite (width canvas)"
  then have "chart_ok (foldl act c as)" by (simp add: foldl_act_ok)
  then have "viewport_ok (viewport (foldl act c as))" by (simp add: chart_ok_def)
  with a show "jle (offsetIndex (viewport (fst (render canvas (foldl act c as)))))
        (Math_max (Fin 0)
           (jadd (jsub (Fin (real (length (bars (foldl act c as)))))
                    (fst (getVisibleRange canvas (foldl act c as))))
                 (Fin 50)))"
    by (intro render_upper_bound) simp_all
qed

text \<open>
  A drag of 700 pixels to the left on the new chart (no bars) moves the offset to 100; the
  next frame, 800 pixels wide and so 114 bars, clamps it back to 0.
\<close>

theorem offsetIndex_bounds_witness:
  "offsetIndex (viewport (foldl act (Chart_new False) [MouseDown 500 0, MouseMove (- 200) 20]))
     = Fin 100 \<and>
   jle (Fin 0)
     (offsetIndex (viewport (foldl act (Chart_new False) [MouseDown 500 0, MouseMove (- 200) 20]))) \<and>
   fst (getVisibleRange
          \<lparr>clientWidth = Fin 800, clientHeight = Fin 600, width = Fin 800, height = Fin 600,
           devicePixelRatio = Fin 1\<rparr>
          (foldl act (Chart_new False) [MouseDown 500 0, MouseMove (- 200) 20])) = Fin 114 \<and>
   offsetIndex (viewport (fst (render
       \<lparr>clientWidth = Fin 800, clientHeight = Fin 600, width = Fin 800, height = Fin 600,
        devicePixelRatio = Fin 1\<rparr>
       (foldl act (Chart_new False) [MouseDown 500 0, MouseMove (- 200) 20])))) = Fin 0"
  using offsetIndex_bounds [of False "Chart_new False" "[MouseDown 500 0, MouseMove (- 200) 20]"
      "\<lparr>clientWidth = Fin 800, clientHeight = Fin 600, width = Fin 800, height = Fin 600,
        devicePixelRatio = Fin 1\<rparr>"]
  by (simp add: Chart_new_def Viewport_new_def mousedown_def mousemove_def Let_def panBy_def
      deltaIndex_def scheduleRender_def fst_render getVisibleRange_def jor_def chart_ok_def
      viewport_ok_def)

text \<open>
  C2 as stated fails right after a mutation: on the new chart (no bars, visible count
  200) \<^verbatim>\<open>panBy(-700)\<close> leaves \<open>offsetIndex\<close> at 100, above
  \<open>max(0, 0 - 200 + 50) = 0\<close>.
\<close>

theorem offsetIndex_upper_bound_counterexample:
  "offsetIndex (panBy (viewport (Chart_new False)) (Fin (- 700))) = Fin 100 \<and>
   Math_max (Fin 0)
     (jadd (jsub (Fin (real (length (bars (Chart_new False)))))
              (visibleCount (viewport (Chart_new False))))
           (Fin 50)) = Fin 0 \<and>
   \<not> jle (offsetIndex (panBy (viewport (Chart_new False)) (Fin (- 700))))
     (Math_max (Fin 0)
        (jadd (jsub (Fin (real (length (bars (Chart_new False)))))
                 (visibleCount (viewport (Chart_new False))))
              (Fin 50)))"
  by (simp add: Chart_new_def Viewport_new_def panBy_def deltaIndex_def)

section \<open>The data loader\<close>

lemma pushEntries_append:
  "pushEntries start entries acc = acc @ map (expandEntry start) entries"
  by (induction entries arbitrary: acc) simp_all

lemma processChunks_bars:
  "fst (processChunks n i chunks acc) =
     acc @ concat (map (\<lambda>chunk. map (expandEntry (ChunkStart chunk)) (Bars chunk)) chunks)"
  by (induction chunks arbitrary: i acc)
    (simp_all add: pushEntries_append Let_def case_prod_beta)

lemma loadForexTesterChunk_chunks:
  "snd (loadForexTesterChunk (Response True statusText (Some (Chunks cs)))) =
     Inr (sort_key Time
       (concat (map (\<lambda>chunk. map (expandEntry (ChunkStart chunk)) (Bars chunk)) cs)))"
proof -
  obtain out reports where p: "processChunks (length cs) 0 cs [] = (out, reports)"
    by (cases "processChunks (length cs) 0 cs []")
  with processChunks_bars [of "length cs" 0 cs "[]"]
  have "out = concat (map (\<lambda>chunk. map (expandEntry (ChunkStart chunk)) (Bars chunk)) cs)"
    by simp
  with p show ?thesis
    by (simp add: loadForexTesterChunk_def sortByTime_def)
qed

text \<open>
  C6: for a chunked payload the loader returns the bars of all chunks, each with its
  time moved by the chunk's \<open>ChunkStart\<close> and its missing prices set to 0, merged and sorted
  by ascending time (the stable sort of the concatenation); a body that is not an array
  fails with the error \<^verbatim>\<open>Unexpected data format\<close>.
\<close>

theorem chunked_format_expansion:
  "(let expanded =
      concat (map (\<lambda>chunk. map (\<lambda>entry.
        \<lparr>Time = eTime entry + ChunkStart chunk,
         Open = (case eOpen entry of None \<Rightarrow> 0 | Some v \<Rightarrow> v),
         High = (case eHigh entry of None \<Rightarrow> 0 | Some v \<Rightarrow> v),
         Low = (case eLow entry of None \<Rightarrow> 0 | Some v \<Rightarrow> v),
         Close = (case eClose entry of None \<Rightarrow> 0 | Some v \<Rightarrow> v),
         TickVolume = eTickVolume entry\<rparr>) (Bars chunk)) cs)
    in \<exists>bars'. snd (loadForexTesterChunk (Response True statusText (Some (Chunks cs)))) = Inr bars' \<and>
         mset bars' = mset expanded \<and> sorted (map Time bars') \<and>
         bars' = sort_key Time expanded) \<and>
   snd (loadForexTesterChunk (Response True statusText (Some NotArray))) = Inl UnexpectedFormat"
proof -
  have e: "(\<lambda>chunk. map (\<lambda>entry.
        \<lparr>Time = eTime entry + ChunkStart chunk,
         Open = (case eOpen entry of None \<Rightarrow> 0 | Some v \<Rightarrow> v),
         High = (case eHigh entry of None \<Rightarrow> 0 | Some v \<Rightarrow> v),
         Low = (case eLow entry of None \<Rightarrow> 0 | Some v \<Rightarrow> v),
         Close = (case eClose entry of None \<Rightarrow> 0 | Some v \<Rightarrow> v),
         TickVolume = eTickVolume entry\<rparr>) (Bars chunk))
      = (\<lambda>chunk. map (expandEntry (ChunkStart chunk)) (Bars chunk))"
    by (simp add: expandEntry_def nullish_def fun_eq_iff)
  have "snd (loadForexTesterChunk (Response True statusText (Some NotArray))) = Inl UnexpectedFormat"
    by (simp add: loadForexTesterChunk_def)
  then show ?thesis
    unfolding Let_def e by (simp add: loadForexTesterChunk_chunks)
qed

text \<open>Chunk start 1000 and relative time 5 give time 1005, sorted after the bar at time 30.\<close>

theorem chunked_format_expansion_witness:
  "snd (loadForexTesterChunk (Response True ''OK'' (Some (Chunks
     [\<lparr>ChunkStart = 1000, Bars =
        [\<lparr>eTime = 5, eOpen = Some 1, eHigh = None, eLow = None, eClose = Some 2, eTickVolume = 7\<rparr>]\<rparr>,
      \<lparr>ChunkStart = 0, Bars =
        [\<lparr>eTime = 30, eOpen = None, eHigh = Some 4, eLow = Some 3, eClose = None, eTickVolume = 1\<rparr>]\<rparr>]))))
   = Inr [\<lparr>Time = 30, Open = 0, High = 4, Low = 3, Close = 0, TickVolume = 1\<rparr>,
          \<lparr>Time = 1005, Open = 1, High = 0, Low = 0, Close = 2, TickVolume = 7\<rparr>]"
  using chunked_format_expansion [of
     "[\<lparr>ChunkStart = 1000, Bars =
        [\<lparr>eTime = 5, eOpen = Some 1, eHigh = None, eLow = None, eClose = Some 2, eTickVolume = 7\<rparr>]\<rparr>,
      \<lparr>ChunkStart = 0, Bars =
        [\<lparr>eTime = 30, eOpen = None, eHigh = Some 4, eLow = Some 3, eClose = None, eTickVolume = 1\<rparr>]\<rparr>]"
     "''OK''"]
  by (simp add: Let_def)

subsection \<open>A failed load\<close>

lemma loader_failures:
  "snd (loadForexTesterChunk Rejected) = Inl NetworkError"
  "snd (loadForexTesterChunk (Response False statusText body)) =
     Inl (FetchFailed (''Failed to fetch data: '' @ statusText))"
  "snd (loadForexTesterChunk (Response True statusText None)) = Inl SyntaxError"
  "snd (loadForexTesterChunk (Response True statusText (Some NotArray))) = Inl UnexpectedFormat"
  by (simp_all add: loadForexTesterChunk_def)

text \<open>
  C8: when the loader fails, whatever the failure (rejected fetch, response not ok, body
  that does not decode, body that is not an array), \<^verbatim>\<open>loadData\<close> rethrows the same
  error, leaves \<open>isLoading\<close> false and leaves the bars (and the viewport) as they were.
\<close>

theorem loadData_failure_keeps_bars:
  assumes "snd (loadForexTesterChunk res) = Inl e"
  shows "snd (loadData c res) = Inl e \<and> \<not> isLoading (fst (loadData c res)) \<and>
         bars (fst (loadData c res)) = bars c \<and> viewport (fst (loadData c res)) = viewport c"
  using assms by (cases "loadForexTesterChunk res") (simp add: loadData_def)

text \<open>A chart with one bar and a response 404: the bar stays, the loading flag is cleared.\<close>

theorem loadData_failure_keeps_bars_witness:
  "snd (loadData ((Chart_new False)\<lparr>bars :=
          [\<lparr>Time = 1, Open = 1, High = 2, Low = 1, Close = 2, TickVolume = 3\<rparr>]\<rparr>)
        (Response False ''Not Found'' None)) = Inl (FetchFailed ''Failed to fetch data: Not Found'') \<and>
   \<not> isLoading (fst (loadData ((Chart_new False)\<lparr>bars :=
          [\<lparr>Time = 1, Open = 1, High = 2, Low = 1, Close = 2, TickVolume = 3\<rparr>]\<rparr>)
        (Response False ''Not Found'' None))) \<and>
   bars (fst (loadData ((Chart_new False)\<lparr>bars :=
          [\<lparr>Time = 1, Open = 1, High = 2, Low = 1, Close = 2, TickVolume = 3\<rparr>]\<rparr>)
        (Response False ''Not Found'' None)))
     = [\<lparr>Time = 1, Open = 1, High = 2, Low = 1, Close = 2, TickVolume = 3\<rparr>]"
  using loadData_failure_keeps_bars [of "Response False ''Not Found'' None"
      "FetchFailed ''Failed to fetch data: Not Found''"
      "(Chart_new False)\<lparr>bars :=
          [\<lparr>Time = 1, Open = 1, High = 2, Low = 1, Close = 2, TickVolume = 3\<rparr>]\<rparr>"]
  by (simp add: loader_failures)

section \<open>Momentum\<close>

lemma updateMomentum_fast:
  assumes "isPanning c" and "panVelocity c = Fin v" and "0.1 < \<bar>v\<bar>"
  shows "updateMomentum c now =
           (scheduleRender (c\<lparr>lastPanTime := now, viewport := panBy (viewport c) (Fin v),
              panVelocity := Fin (v * 0.97)\<rparr>), True)"
  using assms by (simp add: updateMomentum_def)

lemma updateMomentum_slow:
  assumes "isPanning c" and "panVelocity c = Fin v" and "\<bar>v\<bar> \<le> 0.1"
  shows "updateMomentum c now = (c\<lparr>lastPanTime := now\<rparr>, False)"
  using assms by (simp add: updateMomentum_def)

lemma momentumFrames_running:
  assumes "isPanning c" and "panVelocity c = Fin v"
    and "\<forall>k < length ts. 0.1 < \<bar>v\<bar> * 0.97 ^ k"
  shows "panVelocity (fst (momentumFrames c ts)) = Fin (v * 0.97 ^ length ts) \<and>
         snd (momentumFrames c ts)"
  using assms
proof (induction ts arbitrary: c v)
  case Nil
  then show ?case by simp
next
  case (Cons now ts)
  from Cons.prems(3) have fast: "0.1 < \<bar>v\<bar>" by force
  let ?c' = "scheduleRender (c\<lparr>lastPanTime := now, viewport := panBy (viewport c) (Fin v),
              panVelocity := Fin (v * 0.97)\<rparr>)"
  have step: "updateMomentum c now = (?c', True)"
    using Cons.prems(1,2) fast by (rule updateMomentum_fast)
  have later: "\<forall>k < length ts. 0.1 < \<bar>v * 0.97\<bar> * 0.97 ^ k"
  proof (intro allI impI)
    fix k assume "k < length ts"
    then have "Suc k < length (now # ts)" by simp
    with Cons.prems(3) have "0.1 < \<bar>v\<bar> * 0.97 ^ Suc k" by blast
    then show "0.1 < \<bar>v * 0.97\<bar> * 0.97 ^ k" by (simp add: abs_mult mult.assoc)
  qed
  have "panVelocity (fst (momentumFrames ?c' ts)) = Fin (v * 0.97 * 0.97 ^ length ts) \<and>
        snd (momentumFrames ?c' ts)"
    using Cons.prems(1) later by (intro Cons.IH) simp_all
  with step show ?case by (simp add: mult.assoc)
qed

lemma momentumFrames_stops:
  assumes "isPanning c" and "panVelocity c = Fin v"
    and "\<bar>v\<bar> * 0.97 ^ n \<le> 0.1" and "n < length ts"
  shows "\<not> snd (momentumFrames c ts) \<and>
         (\<exists>m \<le> n. panVelocity (fst (momentumFrames c ts)) = Fin (v * 0.97 ^ m) \<and>
                  \<bar>v * 0.97 ^ m\<bar> \<le> 0.1)"
  using assms
proof (induction n arbitrary: c v ts)
  case 0
  then obtain now rest where ts: "ts = now # rest" by (cases ts) simp_all
  from 0 have "updateMomentum c now = (c\<lparr>lastPanTime := now\<rparr>, False)"
    by (intro updateMomentum_slow) simp_all
  with ts 0 show ?case by simp
next
  case (Suc n)
  then obtain now rest where ts: "ts = now # rest" by (cases ts) simp_all
  show ?case
  proof (cases "\<bar>v\<bar> \<le> 0.1")
    case True
    with Suc.prems have "updateMomentum c now = (c\<lparr>lastPanTime := now\<rparr>, False)"
      by (intro updateMomentum_slow) simp_all
    with ts Suc.prems(2) True show ?thesis by (auto intro: exI [of _ 0])
  next
    case False
    let ?c' = "scheduleRender (c\<lparr>lastPanTime := now, viewport := panBy (viewport c) (Fin v),
              panVelocity := Fin (v * 0.97)\<rparr>)"
    have step: "updateMomentum c now = (?c', True)"
      using Suc.prems(1,2) False by (intro updateMomentum_fast) simp_all
    have small: "\<bar>v * 0.97\<bar> * 0.97 ^ n \<le> 0.1"
      using Suc.prems(3) by (simp add: abs_mult mult.assoc)
    have "\<not> snd (momentumFrames ?c' rest) \<and>
         (\<exists>m \<le> n. panVelocity (fst (momentumFrames ?c' rest)) = Fin (v * 0.97 * 0.97 ^ m) \<and>
                  \<bar>v * 0.97 * 0.97 ^ m\<bar> \<le> 0.1)"
      using Suc.prems(1,4) small ts by (intro Suc.IH) simp_all
    then obtain m where m: "m \<le> n"
      "panVelocity (fst (momentumFrames ?c' rest)) = Fin (v * 0.97 ^ Suc m)"
      "\<bar>v * 0.97 ^ Suc m\<bar> \<le> 0.1" "\<not> snd (momentumFrames ?c' rest)"
      by (auto simp: mult.assoc)
    from m(1) have "Suc m \<le> Suc n" by simp
    with m step ts show ?thesis
      by (auto simp del: power_Suc intro!: exI [of _ "Suc m"])
  qed
qed

lemma velocity_decays: "\<exists>n. \<bar>v\<bar> * (0.97::real) ^ n \<le> 0.1"
proof (cases "v = 0")
  case True
  then show ?thesis by simp
next
  case False
  then have "0 < 0.1 / \<bar>v\<bar>" by simp
  then obtain n where "(0.97::real) ^ n < 0.1 / \<bar>v\<bar>"
    using real_arch_pow_inv [of "0.1 / \<bar>v\<bar>" "0.97"] by auto
  with False have "\<bar>v\<bar> * 0.97 ^ n < 0.1"
    by (simp add: pos_less_divide_eq mult.commute)
  then show ?thesis by (auto intro: less_imp_le)
qed

text \<open>
  C7: in momentum mode (\<open>isPanning\<close>) with release velocity \<open>v0\<close>, as long as every frame
  finds \<open>|velocity| > 0.1\<close> the velocity after \<open>n\<close> frames is \<open>v0 * 0.97 ^ n\<close> and the next
  callback is pending; a step pans by the velocity exactly when \<open>|velocity| > 0.1\<close> and
  asks for another step exactly then; and the stepping ends: there is \<open>N\<close> such that
  after more than \<open>N\<close> frames no callback is pending and the velocity has stopped at some
  \<open>v0 * 0.97 ^ n\<close>, \<open>n \<le> N\<close>, of absolute value at most 0.1.
\<close>

theorem momentum_decay:
  assumes "isPanning c" and "panVelocity c = Fin v0"
  shows "((\<forall>k < length ts. 0.1 < \<bar>v0\<bar> * 0.97 ^ k) \<longrightarrow>
            panVelocity (fst (momentumFrames c ts)) = Fin (v0 * 0.97 ^ length ts) \<and>
            snd (momentumFrames c ts)) \<and>
         viewport (fst (updateMomentum c now)) =
           (if 0.1 < \<bar>v0\<bar> then panBy (viewport c) (Fin v0) else viewport c) \<and>
         snd (updateMomentum c now) = (0.1 < \<bar>v0\<bar>) \<and>
         (\<exists>N. \<forall>ts'. N < length ts' \<longrightarrow>
            \<not> snd (momentumFrames c ts') \<and>
            (\<exists>n \<le> N. panVelocity (fst (momentumFrames c ts')) = Fin (v0 * 0.97 ^ n) \<and>
                     \<bar>v0 * 0.97 ^ n\<bar> \<le> 0.1))"
proof (intro conjI impI)
  assume "\<forall>k < length ts. 0.1 < \<bar>v0\<bar> * 0.97 ^ k"
  with assms have r: "panVelocity (fst (momentumFrames c ts)) = Fin (v0 * 0.97 ^ length ts) \<and>
         snd (momentumFrames c ts)"
    by (rule momentumFrames_running)
  from r show "panVelocity (fst (momentumFrames c ts)) = Fin (v0 * 0.97 ^ length ts)" ..
  from r show "snd (momentumFrames c ts)" ..
next
  show "viewport (fst (updateMomentum c now)) =
           (if 0.1 < \<bar>v0\<bar> then panBy (viewport c) (Fin v0) else viewport c)"
    using assms by (simp add: updateMomentum_def Let_def)
  show "snd (updateMomentum c now) = (0.1 < \<bar>v0\<bar>)"
    using assms by (simp add: updateMomentum_def Let_def)
  obtain N where N: "\<bar>v0\<bar> * 0.97 ^ N \<le> 0.1"
    using velocity_decays [of v0] by blast
  show "\<exists>N. \<forall>ts'. N < length ts' \<longrightarrow>
            \<not> snd (momentumFrames c ts') \<and>
            (\<exists>n \<le> N. panVelocity (fst (momentumFrames c ts')) = Fin (v0 * 0.97 ^ n) \<and>
                     \<bar>v0 * 0.97 ^ n\<bar> \<le> 0.1)"
    using assms N by (intro exI [of _ N] allI impI momentumFrames_stops)
qed

text \<open>Release velocity 2: after three frames the velocity is \<open>2 * 0.97 ^ 3\<close>, still stepping.\<close>

theorem momentum_decay_witness:
  "panVelocity (fst (momentumFrames ((Chart_new False)\<lparr>isPanning := True, panVelocity := Fin 2\<rparr>)
      [16, 32, 48])) = Fin (2 * 0.97 ^ 3) \<and>
   snd (momentumFrames ((Chart_new False)\<lparr>isPanning := True, panVelocity := Fin 2\<rparr>) [16, 32, 48]) \<and>
   snd (updateMomentum ((Chart_new False)\<lparr>isPanning := True, panVelocity := Fin 2\<rparr>) 16)"
  using momentum_decay [of "(Chart_new False)\<lparr>isPanning := True, panVelocity := Fin 2\<rparr>" 2
      "[16, 32, 48]" 16]
  by (simp add: less_Suc_eq all_conj_distrib numeral_3_eq_3)

section \<open>The price range\<close>















section \<open>The render passes on a short window\<close>

lemma array_at_Nil [simp]: "array_at [] x = None"
  by (cases x) simp_all

lemma visibleBars_Nil [simp]: "visibleBars [] startIndex vc i = []"
  by (subst visibleBars.simps) simp

lemma drawGraph_no_start_bar:
  "array_at bs (jadd startIndex (Fin 0)) = None \<Longrightarrow>
   drawGraph left top' bottom bs startIndex vc minPrice maxPrice bw sp = Inl TypeError"
  by (simp add: drawGraph_def)

text \<open>
  C4 fails in the code. \<^verbatim>\<open>drawGraph\<close> reads \<^verbatim>\<open>bars[startIndex].Close\<close> before its
  loop, so on an empty bar array, or with a start index at the end of the array, it throws
  a TypeError, where \<^verbatim>\<open>drawBars\<close> and \<^verbatim>\<open>drawTickVolumes\<close> draw nothing and return; the
  first frame of a new chart, which has no bars and is not loading, throws it.
\<close>

theorem drawGraph_throws_on_empty_bars:
  "drawGraph left top' bottom [] (Fin 0) vc minPrice maxPrice bw sp = Inl TypeError \<and>
   drawBars left top' bottom [] (Fin 0) vc minPrice maxPrice bw sp = [Save, Restore] \<and>
   drawTickVolumes left h [] (Fin 0) vc maxVolume bw sp = [Save, Restore] \<and>
   snd (frame canvas (Chart_new volume)) = Inl TypeError \<and>
   drawGraph left top' bottom
     [\<lparr>Time = 1, Open = 1, High = 3, Low = 1, Close = 2, TickVolume = 5\<rparr>] (Fin 1) vc
     minPrice maxPrice bw sp = Inl TypeError"
proof (intro conjI)
  show "snd (frame canvas (Chart_new volume)) = Inl TypeError"
    by (simp add: frame_def render_def Chart_new_def Viewport_new_def getVisibleRange_def
        drawGraph_def Let_def split: prod.splits)
qed (simp_all add: drawGraph_def drawBars_def drawTickVolumes_def)

end
